theory Spec2Isabelle
  imports Complex_Main
begin

section \<open>The galaxy image generator of app.py\<close>

text \<open>
  The module \<^verbatim>\<open>EDA/app/app.py\<close> builds a Sersic galaxy profile, shears it,
  convolves it with a Moffat point-spread function, draws it on a 64 x 64 pixel grid,
  and adds photon noise and a Gaussian background. The profile algebra, the renderer and
  the random generators belong to the GalSim and NumPy libraries, which are not part of
  the repository: they enter the model as a record of operations, and every theorem
  below holds for any such record. Python floats are modelled as real numbers.
\<close>

subsection \<open>Fixed parameters\<close>

definition image_size :: nat where
  "image_size = 64"

definition pixel_scale :: real where
  "pixel_scale = 23 / 100"

definition random_seed :: int where
  "random_seed = 1314662"

definition psf_beta :: real where
  "psf_beta = 2"

subsection \<open>Errors and float division\<close>

text \<open>
  The function raises nothing itself except through the division of line 40, which is a
  division of Python floats. Every other exception is one a library call raises; it is
  kept under the name the library gave it.
\<close>

datatype error = ZeroDivisionError | LibraryError string

definition float_div :: "real \<Rightarrow> real \<Rightarrow> error + real" where
  "float_div x y = (if y = 0 then Inl ZeroDivisionError else Inr (x / y))"

text \<open>
  The signal-to-noise ratio is a NumPy scalar divided by \<^verbatim>\<open>noise\<close>. NumPy does not
  raise on a zero divisor: it warns and yields an infinity, or a NaN for 0 / 0.
\<close>

datatype npfloat = Num real | PosInf | NegInf | NaN

definition true_divide :: "real \<Rightarrow> real \<Rightarrow> npfloat" where
  "true_divide x y =
     (if y \<noteq> 0 then Num (x / y)
      else if x = 0 then NaN
      else if 0 < x then PosInf
      else NegInf)"

subsection \<open>Arrays\<close>

text \<open>A two-dimensional NumPy array is a list of rows.\<close>

type_synonym array = "real list list"

definition fill :: "nat \<Rightarrow> nat \<Rightarrow> (nat \<Rightarrow> nat \<Rightarrow> real) \<Rightarrow> array" where
  "fill nrow ncol f = map (\<lambda>i. map (\<lambda>j. f i j) [0..<ncol]) [0..<nrow]"

definition array_square :: "array \<Rightarrow> array" where
  "array_square a = map (map (\<lambda>x. x ^ 2)) a"

definition array_sum :: "array \<Rightarrow> real" where
  "array_sum a = sum_list (map sum_list a)"

definition array_add :: "array \<Rightarrow> array \<Rightarrow> array" where
  "array_add a b = map (\<lambda>(r, r'). map (\<lambda>(x, y). x + y) (zip r r')) (zip a b)"

definition reshape :: "nat \<Rightarrow> nat \<Rightarrow> real list \<Rightarrow> array" where
  "reshape nrow ncol xs = map (\<lambda>i. take ncol (drop (i * ncol) xs)) [0..<nrow]"

subsection \<open>The library interface\<close>

text \<open>
  The operations of GalSim and NumPy that \<^verbatim>\<open>generate_image\<close> calls. \<open>'p\<close> is the
  type of profiles, \<open>'r\<close> the state of a GalSim random deviate, \<open>'w\<close> the entropy
  of the operating system and \<open>'n\<close> the state of NumPy's global generator. A call
  that raises returns \<open>Inl\<close> with the exception's name. The renderer and the noise model
  give the value of each pixel (row, column); the buffer they write to keeps its shape.

  The arguments are those of the calls in the source, in this order: \<open>Sersic n
  half_light_radius\<close>, \<open>withFlux profile flux\<close>, \<open>shear profile g1 g2\<close>, \<open>Moffat beta
  flux fwhm\<close>, \<open>Convolve profiles\<close>, \<open>drawImage profile ncol nrow scale\<close>,
  \<open>BaseDeviate seed\<close>, \<open>BaseDeviate_entropy\<close> for a deviate built with no seed,
  \<open>PoissonNoise deviate sky_level pixels\<close> and \<open>random_normal loc scale size\<close>.
\<close>

record ('p, 'r, 'w, 'n) library =
  Sersic :: "real \<Rightarrow> real \<Rightarrow> string + 'p"
  withFlux :: "'p \<Rightarrow> real \<Rightarrow> string + 'p"
  shear :: "'p \<Rightarrow> real \<Rightarrow> real \<Rightarrow> string + 'p"
  Moffat :: "real \<Rightarrow> real \<Rightarrow> real \<Rightarrow> string + 'p"
  Convolve :: "'p list \<Rightarrow> string + 'p"
  drawImage :: "'p \<Rightarrow> nat \<Rightarrow> nat \<Rightarrow> real \<Rightarrow> string + (nat \<Rightarrow> nat \<Rightarrow> real)"
  BaseDeviate :: "int \<Rightarrow> 'r"
  BaseDeviate_entropy :: "'w \<Rightarrow> 'r \<times> 'w"
  PoissonNoise :: "'r \<Rightarrow> real \<Rightarrow> array \<Rightarrow> string + (nat \<Rightarrow> nat \<Rightarrow> real)"
  random_normal :: "real \<Rightarrow> real \<Rightarrow> nat \<Rightarrow> 'n \<Rightarrow> (string + (nat \<Rightarrow> real)) \<times> 'n"

subsection \<open>The state of the process\<close>

text \<open>
  Arrays live in a heap and are named by their address, so that a view of an image's
  buffer and a copy of it are different things. \<open>rng\<close> is the module's seeded
  generator of line 12.
\<close>

type_synonym addr = nat

record ('r, 'w, 'n) process =
  heap :: "array list"
  rng :: 'r
  urandom :: 'w
  np_random :: 'n

record galsim_image =
  array_ref :: addr
  ncol :: nat
  nrow :: nat
  scale :: real

record outcome =
  noised :: addr
  psf :: addr
  noiseless :: addr
  snr :: npfloat
  g1 :: real
  g2 :: real

definition module_init :: "('p, 'r, 'w, 'n) library \<Rightarrow> 'w \<Rightarrow> 'n \<Rightarrow> ('r, 'w, 'n) process" where
  "module_init G w n =
     \<lparr>heap = [], rng = BaseDeviate G (random_seed + 1), urandom = w, np_random = n\<rparr>"

subsection \<open>Statements that may raise\<close>

type_synonym ('a, 's) stmt = "'s \<Rightarrow> (error + 'a) \<times> 's"

definition return_val :: "'a \<Rightarrow> ('a, 's) stmt" where
  "return_val x s = (Inr x, s)"

definition and_then :: "('a, 's) stmt \<Rightarrow> ('a \<Rightarrow> ('b, 's) stmt) \<Rightarrow> ('b, 's) stmt" where
  "and_then m f s = (case m s of (Inl e, s') \<Rightarrow> (Inl e, s') | (Inr x, s') \<Rightarrow> f x s')"

definition pure_call :: "error + 'a \<Rightarrow> ('a, 's) stmt" where
  "pure_call r s = (r, s)"

definition lib_call :: "string + 'a \<Rightarrow> ('a, 's) stmt" where
  "lib_call r s = (case r of Inl e \<Rightarrow> (Inl (LibraryError e), s) | Inr x \<Rightarrow> (Inr x, s))"

definition new_array :: "array \<Rightarrow> (addr, ('r, 'w, 'n) process) stmt" where
  "new_array a s = (Inr (length (heap s)), s\<lparr>heap := heap s @ [a]\<rparr>)"

definition read_array :: "addr \<Rightarrow> (array, ('r, 'w, 'n) process) stmt" where
  "read_array p s = (Inr (heap s ! p), s)"

definition write_array :: "addr \<Rightarrow> array \<Rightarrow> (unit, ('r, 'w, 'n) process) stmt" where
  "write_array p a s = (Inr (), s\<lparr>heap := (heap s)[p := a]\<rparr>)"

text \<open>\<^verbatim>\<open>galsim.ImageF(ncol, nrow, scale=...)\<close>: a new image over a new zero buffer.\<close>

definition ImageF :: "nat \<Rightarrow> nat \<Rightarrow> real \<Rightarrow> (galsim_image, ('r, 'w, 'n) process) stmt" where
  "ImageF nc nr sc =
     and_then (new_array (fill nr nc (\<lambda>i j. 0)))
       (\<lambda>p. return_val \<lparr>array_ref = p, ncol = nc, nrow = nr, scale = sc\<rparr>)"

text \<open>\<^verbatim>\<open>prof.drawImage(image=image)\<close>: the profile is drawn into the image's buffer.\<close>

definition drawImage_into ::
  "('p, 'r, 'w, 'n) library \<Rightarrow> 'p \<Rightarrow> galsim_image \<Rightarrow> (unit, ('r, 'w, 'n) process) stmt" where
  "drawImage_into G prof img =
     and_then (lib_call (drawImage G prof (ncol img) (nrow img) (scale img)))
       (\<lambda>f. write_array (array_ref img) (fill (nrow img) (ncol img) f))"

text \<open>\<^verbatim>\<open>copy.deepcopy(a)\<close> of an array: a new buffer with the same contents.\<close>

definition deepcopy :: "addr \<Rightarrow> (addr, ('r, 'w, 'n) process) stmt" where
  "deepcopy p = and_then (read_array p) new_array"

text \<open>
  \<^verbatim>\<open>image.addNoise(galsim.PoissonNoise(sky_level=0.0))\<close>: the noise object is built
  with no generator, so GalSim makes one for it, seeded from the operating system; the
  noise then overwrites the image's buffer.
\<close>

definition fresh_deviate :: "('p, 'r, 'w, 'n) library \<Rightarrow> ('r, ('r, 'w, 'n) process) stmt" where
  "fresh_deviate G s =
     (case BaseDeviate_entropy G (urandom s) of (d, w) \<Rightarrow> (Inr d, s\<lparr>urandom := w\<rparr>))"

definition addNoise_Poisson ::
  "('p, 'r, 'w, 'n) library \<Rightarrow> galsim_image \<Rightarrow> real \<Rightarrow> (unit, ('r, 'w, 'n) process) stmt" where
  "addNoise_Poisson G img sky_level =
     and_then (fresh_deviate G) (\<lambda>d.
     and_then (read_array (array_ref img)) (\<lambda>a.
     and_then (lib_call (PoissonNoise G d sky_level a)) (\<lambda>f.
     write_array (array_ref img) (fill (nrow img) (ncol img) f))))"

text \<open>\<^verbatim>\<open>np.random.normal(loc, scale, size)\<close>, drawn from NumPy's global generator.\<close>

definition np_random_normal ::
  "('p, 'r, 'w, 'n) library \<Rightarrow> real \<Rightarrow> real \<Rightarrow> nat \<Rightarrow> (real list, ('r, 'w, 'n) process) stmt" where
  "np_random_normal G loc sc count s =
     (case random_normal G loc sc count (np_random s) of
        (Inl e, n) \<Rightarrow> (Inl (LibraryError e), s\<lparr>np_random := n\<rparr>)
      | (Inr f, n) \<Rightarrow> (Inr (map f [0..<count]), s\<lparr>np_random := n\<rparr>))"

subsection \<open>generate_image\<close>

text \<open>
  Lines 39 to 75, statement by statement:
  \<^verbatim>\<open>
  def generate_image(psf_re, bulge_re, bulge_n, gal_q, gal_beta, noise, gal_flux):
      A = (1 - gal_q) / (gal_q + 1)
      g_1 = A * np.cos(2 * gal_beta)
      g_2 = A * np.sin(2 * gal_beta)
      gal = galsim.Sersic(bulge_n, half_light_radius=bulge_re)
      gal = gal.withFlux(gal_flux)
      gal = gal.shear(g1=g_1, g2=g_2)
      psf = galsim.Moffat(beta=psf_beta, flux=1.0, fwhm=psf_re)
      final = galsim.Convolve([psf, gal])
      image = galsim.ImageF(image_size, image_size, scale=pixel_scale)
      final.drawImage(image=image)
      image_nonoise = copy.deepcopy(image.array)
      snr = np.sqrt((image.array ** 2).sum()) / noise
      image.addNoise(galsim.PoissonNoise(sky_level=0.0))
      noisemap = np.random.normal(0, noise, 64 * 64)
      noisemap = noisemap.reshape((64, 64))
      img_fv = image.array + noisemap
      final_2 = psf
      image_2 = galsim.ImageF(image_size, image_size, scale=pixel_scale)
      final_2.drawImage(image=image_2)
      outcome = {"noised": img_fv, "psf": image_2.array, "noiseless": image_nonoise,
                 "snr": snr, "g1": g_1, "g2": g_2}
      return outcome
  \<close>
  \<open>image.array\<close> is a view of the image's buffer, so it is the buffer's address; the
  arrays in the result are given by their addresses.
\<close>

definition generate_image ::
  "('p, 'r, 'w, 'n) library \<Rightarrow> real \<Rightarrow> real \<Rightarrow> real \<Rightarrow> real \<Rightarrow> real \<Rightarrow> real \<Rightarrow> real
     \<Rightarrow> (outcome, ('r, 'w, 'n) process) stmt" where
  "generate_image G psf_re bulge_re bulge_n gal_q gal_beta noise gal_flux =
     and_then (pure_call (float_div (1 - gal_q) (gal_q + 1))) (\<lambda>A.
     let g_1 = A * cos (2 * gal_beta);
         g_2 = A * sin (2 * gal_beta) in
     and_then (lib_call (Sersic G bulge_n bulge_re)) (\<lambda>gal.
     and_then (lib_call (withFlux G gal gal_flux)) (\<lambda>gal.
     and_then (lib_call (shear G gal g_1 g_2)) (\<lambda>gal.
     and_then (lib_call (Moffat G psf_beta 1 psf_re)) (\<lambda>psf_prof.
     and_then (lib_call (Convolve G [psf_prof, gal])) (\<lambda>final.
     and_then (ImageF image_size image_size pixel_scale) (\<lambda>image.
     and_then (drawImage_into G final image) (\<lambda>_.
     and_then (deepcopy (array_ref image)) (\<lambda>image_nonoise.
     and_then (read_array (array_ref image)) (\<lambda>a.
     let snr_val = true_divide (sqrt (array_sum (array_square a))) noise in
     and_then (addNoise_Poisson G image 0) (\<lambda>_.
     and_then (np_random_normal G 0 noise (64 * 64)) (\<lambda>noisemap.
     let noisemap = reshape 64 64 noisemap in
     and_then (read_array (array_ref image)) (\<lambda>a'.
     and_then (new_array (array_add a' noisemap)) (\<lambda>img_fv.
     let final_2 = psf_prof in
     and_then (ImageF image_size image_size pixel_scale) (\<lambda>image_2.
     and_then (drawImage_into G final_2 image_2) (\<lambda>_.
     return_val
       \<lparr>noised = img_fv, psf = array_ref image_2, noiseless = image_nonoise,
        snr = snr_val, g1 = g_1, g2 = g_2\<rparr>))))))))))))))))"


subsection \<open>Frame conditions\<close>

text \<open>
  A statement ignores the seeded generator when running it from a state with another
  \<open>rng\<close> gives the same result and the same final state, up to that \<open>rng\<close>.
\<close>

definition ignores_rng :: "('a, ('r, 'w, 'n) process) stmt \<Rightarrow> bool" where
  "ignores_rng m \<longleftrightarrow>
     (\<forall>s d. m (s\<lparr>rng := d\<rparr>) = (fst (m s), (snd (m s))\<lparr>rng := d\<rparr>))"

text \<open>A statement whose only exceptions are those of library calls.\<close>

definition raises_lib :: "('a, 's) stmt \<Rightarrow> bool" where
  "raises_lib m \<longleftrightarrow> (\<forall>s e s'. m s = (Inl e, s') \<longrightarrow> (\<exists>x. e = LibraryError x))"

subsection \<open>An instance of the library to run the function on\<close>

text \<open>
  \<open>flux_lib\<close> is a small instance of the interface on which \<open>generate_image\<close> can be
  evaluated. It is not GalSim: a profile is known by its total flux only, the renderer
  spreads that flux evenly over the grid, the photon noise shifts every pixel by the
  state of its deviate, and the normal samples are all equal. Like NumPy it refuses a
  negative standard deviation. The theorems about \<open>generate_image\<close> hold for every
  library; this one shows that their hypotheses can be met.
\<close>

definition flux_lib :: "(real, nat, nat, nat) library" where
  "flux_lib =
     \<lparr>Sersic = (\<lambda>n hlr. Inr 1),
      withFlux = (\<lambda>p flux. Inr flux),
      shear = (\<lambda>p g_1 g_2. Inr p),
      Moffat = (\<lambda>beta flux fwhm. Inr flux),
      Convolve = (\<lambda>ps. Inr (prod_list ps)),
      drawImage = (\<lambda>p nc nr sc. Inr (\<lambda>i j. p / real (nc * nr))),
      BaseDeviate = (\<lambda>seed. nat seed),
      BaseDeviate_entropy = (\<lambda>w. (w, Suc w)),
      PoissonNoise = (\<lambda>d sky a. Inr (\<lambda>i j. a ! i ! j + real d)),
      random_normal = (\<lambda>loc sc count n.
         if sc < 0 then (Inl ''ValueError'', n) else (Inr (\<lambda>k. loc + sc * real n), Suc n))\<rparr>"

definition start :: "(nat, nat, nat) process" where
  "start = module_init flux_lib 0 0"

definition busy :: "(nat, nat, nat) process" where
  "busy = \<lparr>heap = [[[1]]], rng = 7, urandom = 5, np_random = 9\<rparr>"

section \<open>Running the statements\<close>

lemma and_then_Inr:
  "and_then m f s = (Inr y, s') \<longleftrightarrow> (\<exists>x s1. m s = (Inr x, s1) \<and> f x s1 = (Inr y, s'))"
  by (auto simp: and_then_def split: prod.splits sum.splits)

lemma and_then_Inl:
  "and_then m f s = (Inl e, s') \<longleftrightarrow>
     m s = (Inl e, s') \<or> (\<exists>x s1. m s = (Inr x, s1) \<and> f x s1 = (Inl e, s'))"
  by (auto simp: and_then_def split: prod.splits sum.splits)

lemma lib_call_Inr: "lib_call r s = (Inr x, s') \<longleftrightarrow> r = Inr x \<and> s' = s"
  by (auto simp: lib_call_def split: sum.splits)

lemma pure_call_Inr: "pure_call r s = (Inr x, s') \<longleftrightarrow> r = Inr x \<and> s' = s"
  by (auto simp: pure_call_def)

lemma float_div_Inr: "float_div x y = Inr z \<longleftrightarrow> y \<noteq> 0 \<and> z = x / y"
  by (auto simp: float_div_def)

lemma ImageF_run:
  "ImageF nc nr sc s =
     (Inr \<lparr>array_ref = length (heap s), ncol = nc, nrow = nr, scale = sc\<rparr>,
      s\<lparr>heap := heap s @ [fill nr nc (\<lambda>i j. 0)]\<rparr>)"
  by (simp add: ImageF_def and_then_def new_array_def return_val_def)

lemma deepcopy_run:
  "deepcopy p s = (Inr (length (heap s)), s\<lparr>heap := heap s @ [heap s ! p]\<rparr>)"
  by (simp add: deepcopy_def and_then_def new_array_def read_array_def)

lemma drawImage_into_Inr:
  "drawImage_into G prof img s = (Inr u, s') \<longleftrightarrow>
     (\<exists>f. drawImage G prof (ncol img) (nrow img) (scale img) = Inr f \<and>
          s' = s\<lparr>heap := (heap s)[array_ref img := fill (nrow img) (ncol img) f]\<rparr>)"
  by (auto simp: drawImage_into_def and_then_Inr lib_call_Inr write_array_def)

lemma addNoise_Poisson_Inr:
  "addNoise_Poisson G img sky s = (Inr u, s') \<longleftrightarrow>
     (\<exists>f. PoissonNoise G (fst (BaseDeviate_entropy G (urandom s))) sky (heap s ! array_ref img)
            = Inr f \<and>
          s' = s\<lparr>urandom := snd (BaseDeviate_entropy G (urandom s)),
                 heap := (heap s)[array_ref img := fill (nrow img) (ncol img) f]\<rparr>)"
  by (auto simp: addNoise_Poisson_def and_then_Inr lib_call_Inr write_array_def read_array_def
        fresh_deviate_def split: prod.splits)

lemma np_random_normal_Inr:
  "np_random_normal G loc sc count s = (Inr xs, s') \<longleftrightarrow>
     (\<exists>f. fst (random_normal G loc sc count (np_random s)) = Inr f \<and> xs = map f [0..<count] \<and>
          s' = s\<lparr>np_random := snd (random_normal G loc sc count (np_random s))\<rparr>)"
  by (auto simp: np_random_normal_def split: prod.splits sum.splits)

text \<open>
  What a successful call has done: which library calls it made, what it returns and
  what the heap holds afterwards. The image's buffer is the first array allocated, the
  noiseless copy the second, the noisy image the third and the PSF image the fourth.
\<close>

lemma generate_image_Inr:
  assumes run: "generate_image G psf_re bulge_re bulge_n gal_q gal_beta noise gal_flux s = (Inr r, s')"
  obtains gal0 gal1 gal2 psf_prof final f pf nf f2 where
    "gal_q + 1 \<noteq> 0"
    "Sersic G bulge_n bulge_re = Inr gal0"
    "withFlux G gal0 gal_flux = Inr gal1"
    "shear G gal1 ((1 - gal_q) / (gal_q + 1) * cos (2 * gal_beta))
       ((1 - gal_q) / (gal_q + 1) * sin (2 * gal_beta)) = Inr gal2"
    "Moffat G psf_beta 1 psf_re = Inr psf_prof"
    "Convolve G [psf_prof, gal2] = Inr final"
    "drawImage G final image_size image_size pixel_scale = Inr f"
    "PoissonNoise G (fst (BaseDeviate_entropy G (urandom s))) 0
       (fill image_size image_size f) = Inr pf"
    "fst (random_normal G 0 noise (64 * 64) (np_random s)) = Inr nf"
    "drawImage G psf_prof image_size image_size pixel_scale = Inr f2"
    "r = \<lparr>noised = length (heap s) + 2, psf = length (heap s) + 3,
          noiseless = length (heap s) + 1,
          snr = true_divide (sqrt (array_sum (array_square (fill image_size image_size f)))) noise,
          g1 = (1 - gal_q) / (gal_q + 1) * cos (2 * gal_beta),
          g2 = (1 - gal_q) / (gal_q + 1) * sin (2 * gal_beta)\<rparr>"
    "s' = s\<lparr>heap := heap s @
             [fill image_size image_size pf, fill image_size image_size f,
              array_add (fill image_size image_size pf) (reshape 64 64 (map nf [0..<64 * 64])),
              fill image_size image_size f2],
           urandom := snd (BaseDeviate_entropy G (urandom s)),
           np_random := snd (random_normal G 0 noise (64 * 64) (np_random s))\<rparr>"
  using run
  unfolding generate_image_def Let_def
  by (auto simp: and_then_Inr lib_call_Inr pure_call_Inr float_div_Inr ImageF_run deepcopy_run
        drawImage_into_Inr addNoise_Poisson_Inr np_random_normal_Inr read_array_def new_array_def
        return_val_def nth_append)

lemma generate_image_div_zero:
  "gal_q = - 1 \<Longrightarrow>
     generate_image G psf_re bulge_re bulge_n gal_q gal_beta noise gal_flux s
       = (Inl ZeroDivisionError, s)"
  by (simp add: generate_image_def and_then_def pure_call_def float_div_def)

text \<open>
  Conversely the function checks nothing: when the divisor of line 40 is not zero and no
  library call raises, the call returns.
\<close>

lemma generate_image_succeeds:
  assumes "gal_q + 1 \<noteq> 0"
    and "Sersic G bulge_n bulge_re = Inr gal0"
    and "withFlux G gal0 gal_flux = Inr gal1"
    and "shear G gal1 ((1 - gal_q) / (gal_q + 1) * cos (2 * gal_beta))
           ((1 - gal_q) / (gal_q + 1) * sin (2 * gal_beta)) = Inr gal2"
    and "Moffat G psf_beta 1 psf_re = Inr psf_prof"
    and "Convolve G [psf_prof, gal2] = Inr final"
    and "drawImage G final image_size image_size pixel_scale = Inr f"
    and "PoissonNoise G (fst (BaseDeviate_entropy G (urandom s))) 0
           (fill image_size image_size f) = Inr pf"
    and "fst (random_normal G 0 noise (64 * 64) (np_random s)) = Inr nf"
    and "drawImage G psf_prof image_size image_size pixel_scale = Inr f2"
  shows "\<exists>r s'. generate_image G psf_re bulge_re bulge_n gal_q gal_beta noise gal_flux s = (Inr r, s')"
  using assms
  unfolding generate_image_def Let_def
  by (auto simp: and_then_def lib_call_def pure_call_def float_div_def ImageF_run deepcopy_run
        drawImage_into_def addNoise_Poisson_def np_random_normal_def read_array_def new_array_def
        write_array_def fresh_deviate_def return_val_def nth_append split: prod.splits sum.splits)

lemma snr_of_run:
  assumes "generate_image G psf_re bulge_re bulge_n gal_q gal_beta noise gal_flux s = (Inr r, s')"
  obtains gal0 gal1 gal2 psf_prof final f where
    "Sersic G bulge_n bulge_re = Inr gal0"
    "withFlux G gal0 gal_flux = Inr gal1"
    "shear G gal1 ((1 - gal_q) / (gal_q + 1) * cos (2 * gal_beta))
       ((1 - gal_q) / (gal_q + 1) * sin (2 * gal_beta)) = Inr gal2"
    "Moffat G psf_beta 1 psf_re = Inr psf_prof"
    "Convolve G [psf_prof, gal2] = Inr final"
    "drawImage G final image_size image_size pixel_scale = Inr f"
    "snr r = true_divide (sqrt (array_sum (array_square (fill image_size image_size f)))) noise"
  using assms by (elim generate_image_Inr) simp

subsection \<open>Frame: the seeded generator\<close>

lemma ignores_rng_and_then:
  "ignores_rng m \<Longrightarrow> (\<And>x. ignores_rng (f x)) \<Longrightarrow> ignores_rng (and_then m f)"
  unfolding ignores_rng_def and_then_def
  by (auto split: prod.splits sum.splits)

lemma ignores_rng_Let: "(\<And>x. ignores_rng (f x)) \<Longrightarrow> ignores_rng (let x = v in f x)"
  by simp

lemma ignores_rng_prims:
  "ignores_rng (return_val x)"
  "ignores_rng (pure_call r)"
  "ignores_rng (lib_call q)"
  "ignores_rng (new_array a)"
  "ignores_rng (read_array p)"
  "ignores_rng (write_array p a)"
  "ignores_rng (fresh_deviate G)"
  "ignores_rng (np_random_normal G loc sc count)"
  by (auto simp: ignores_rng_def return_val_def pure_call_def lib_call_def new_array_def
        read_array_def write_array_def fresh_deviate_def np_random_normal_def
        split: prod.splits sum.splits)

lemma ignores_rng_addNoise_Poisson: "ignores_rng (addNoise_Poisson G img sky)"
  unfolding addNoise_Poisson_def
  by (intro ignores_rng_and_then ignores_rng_prims)

lemma ignores_rng_generate_image:
  "ignores_rng (generate_image G psf_re bulge_re bulge_n gal_q gal_beta noise gal_flux)"
  unfolding generate_image_def ImageF_def drawImage_into_def deepcopy_def
  by (intro ignores_rng_and_then ignores_rng_Let ignores_rng_prims ignores_rng_addNoise_Poisson)

lemma ignores_rng_same:
  assumes "ignores_rng m"
  shows "rng (snd (m s)) = rng s"
proof -
  have "m (s\<lparr>rng := rng s\<rparr>) = (fst (m s), (snd (m s))\<lparr>rng := rng s\<rparr>)"
    using assms unfolding ignores_rng_def by blast
  then have "snd (m s) = (snd (m s))\<lparr>rng := rng s\<rparr>"
    by (simp add: prod_eq_iff)
  then have "rng (snd (m s)) = rng ((snd (m s))\<lparr>rng := rng s\<rparr>)"
    by simp
  then show ?thesis by simp
qed

subsection \<open>Failures\<close>

lemma raises_lib_and_then:
  "raises_lib m \<Longrightarrow> (\<And>x. raises_lib (f x)) \<Longrightarrow> raises_lib (and_then m f)"
  unfolding raises_lib_def and_then_Inl by blast

lemma raises_lib_Let: "(\<And>x. raises_lib (f x)) \<Longrightarrow> raises_lib (let x = v in f x)"
  by simp

lemma raises_lib_prims:
  "raises_lib (return_val x)"
  "raises_lib (lib_call q)"
  "raises_lib (new_array a)"
  "raises_lib (read_array p)"
  "raises_lib (write_array p a)"
  "raises_lib (fresh_deviate G)"
  "raises_lib (np_random_normal G loc sc count)"
  by (auto simp: raises_lib_def return_val_def lib_call_def new_array_def
        read_array_def write_array_def fresh_deviate_def np_random_normal_def
        split: prod.splits sum.splits)

lemma generate_image_Inl:
  assumes "generate_image G psf_re bulge_re bulge_n gal_q gal_beta noise gal_flux s = (Inl e, s')"
  shows "(e = ZeroDivisionError \<and> gal_q = - 1 \<and> s' = s) \<or> (\<exists>x. e = LibraryError x)"
proof (cases "gal_q + 1 = 0")
  case True
  then have "gal_q = - 1" by simp
  with assms generate_image_div_zero [of gal_q G psf_re bulge_re bulge_n gal_beta noise gal_flux s]
  show ?thesis by simp
next
  case False
  have "raises_lib (generate_image G psf_re bulge_re bulge_n gal_q gal_beta noise gal_flux)"
    unfolding generate_image_def ImageF_def drawImage_into_def deepcopy_def addNoise_Poisson_def
    apply (rule raises_lib_and_then)
    using False apply (simp add: raises_lib_def pure_call_def float_div_def)
    apply (intro raises_lib_and_then raises_lib_Let raises_lib_prims)
    done
  with assms show ?thesis by (auto simp: raises_lib_def)
qed

subsection \<open>Sums of squares over a filled grid\<close>

lemma fill_const: "fill n m (\<lambda>i j. c) = replicate n (replicate m c)"
  by (simp add: fill_def map_replicate_const)

lemma sum_squares_fill:
  "array_sum (array_square (fill n m f)) = (\<Sum>i\<leftarrow>[0..<n]. \<Sum>j\<leftarrow>[0..<m]. (f i j)\<^sup>2)"
  by (simp add: array_sum_def array_square_def fill_def comp_def)

lemma sum_squares_fill_const:
  "array_sum (array_square (fill n m (\<lambda>i j. c))) = real n * (real m * c\<^sup>2)"
  by (simp add: sum_squares_fill sum_list_triv)

lemma sum_squares_nonneg: "0 \<le> array_sum (array_square a)"
  by (auto simp: array_sum_def array_square_def intro!: sum_list_nonneg)

subsection \<open>Runs of the small library\<close>

lemma flux_lib_run:
  assumes "gal_q + 1 \<noteq> 0" and "0 \<le> noise"
  shows "\<exists>s'. generate_image flux_lib psf_re bulge_re bulge_n gal_q gal_beta noise gal_flux s =
    (Inr \<lparr>noised = length (heap s) + 2, psf = length (heap s) + 3,
          noiseless = length (heap s) + 1,
          snr = true_divide (sqrt (array_sum (array_square
                  (fill image_size image_size (\<lambda>i j. gal_flux / real (image_size * image_size)))))) noise,
          g1 = (1 - gal_q) / (gal_q + 1) * cos (2 * gal_beta),
          g2 = (1 - gal_q) / (gal_q + 1) * sin (2 * gal_beta)\<rparr>, s')"
  using assms
  unfolding generate_image_def Let_def
  by (simp add: and_then_def lib_call_def pure_call_def float_div_def ImageF_run deepcopy_run
        drawImage_into_def addNoise_Poisson_def np_random_normal_def read_array_def new_array_def
        write_array_def fresh_deviate_def return_val_def nth_append flux_lib_def psf_beta_def)

lemma flux_lib_negative_noise:
  assumes "gal_q + 1 \<noteq> 0" and "noise < 0"
  shows "fst (generate_image flux_lib psf_re bulge_re bulge_n gal_q gal_beta noise gal_flux s)
           = Inl (LibraryError ''ValueError'')"
  using assms
  unfolding generate_image_def Let_def
  by (simp add: and_then_def lib_call_def pure_call_def float_div_def ImageF_run deepcopy_run
        drawImage_into_def addNoise_Poisson_def np_random_normal_def read_array_def new_array_def
        write_array_def fresh_deviate_def return_val_def nth_append flux_lib_def psf_beta_def)

lemma flux_lib_snr:
  "sqrt (array_sum (array_square (fill image_size image_size (\<lambda>i j. c / real (image_size * image_size)))))
     = \<bar>c\<bar> / 64"
proof -
  have "array_sum (array_square (fill image_size image_size (\<lambda>i j. c / real (image_size * image_size))))
      = (c / 64)\<^sup>2"
    by (simp add: sum_squares_fill_const image_size_def power2_eq_square)
  then show ?thesis by simp
qed

subsection \<open>The PSF image\<close>

text \<open>
  The PSF image is drawn from the Moffat profile alone, into a buffer of its own that
  no noise step writes to; it depends on \<open>psf_re\<close> only. What its pixels add up to
  is a matter of the renderer.
\<close>

lemma psf_image_bare_moffat:
  assumes "generate_image G psf_re bulge_re bulge_n gal_q gal_beta noise gal_flux s = (Inr r, s')"
  shows "\<exists>psf_prof f2.
           Moffat G psf_beta 1 psf_re = Inr psf_prof \<and>
           drawImage G psf_prof image_size image_size pixel_scale = Inr f2 \<and>
           psf r < length (heap s') \<and>
           heap s' ! psf r = fill image_size image_size f2"
  using assms
  by (elim generate_image_Inr) (simp add: nth_append)

lemma psf_image_independent:
  assumes "generate_image G psf_re bulge_re bulge_n gal_q gal_beta noise gal_flux s = (Inr r, s')"
    and "generate_image G psf_re bulge_re' bulge_n' gal_q' gal_beta' noise' gal_flux' t = (Inr u, t')"
  shows "heap s' ! psf r = heap t' ! psf u"
  using psf_image_bare_moffat [OF assms(1)] psf_image_bare_moffat [OF assms(2)]
  by auto

subsection \<open>The signal-to-noise ratio and the noise level\<close>

text \<open>
  The image is rendered before \<open>noise\<close> is used, so for \<open>noise\<close> other than zero the
  \<open>snr\<close> is a number and a call with \<open>noise\<close> doubled returns half of it. How the
  \<open>snr\<close> follows \<open>gal_flux\<close> is a matter of the renderer.
\<close>

lemma snr_noise_doubled:
  assumes run: "generate_image G psf_re bulge_re bulge_n gal_q gal_beta noise gal_flux s = (Inr r, s')"
    and run3: "generate_image G psf_re bulge_re bulge_n gal_q gal_beta (2 * noise) gal_flux s3
        = (Inr r3, s3')"
    and noise: "noise \<noteq> 0"
  shows "\<exists>x. snr r = Num x \<and> snr r3 = Num (x / 2)"
proof -
  from run obtain final f where
    lib: "drawImage G final image_size image_size pixel_scale = Inr f"
    and r: "snr r = true_divide (sqrt (array_sum (array_square (fill image_size image_size f)))) noise"
    and rest: "\<exists>gal0 gal1 gal2 psf_prof.
        Sersic G bulge_n bulge_re = Inr gal0 \<and> withFlux G gal0 gal_flux = Inr gal1 \<and>
        shear G gal1 ((1 - gal_q) / (gal_q + 1) * cos (2 * gal_beta))
          ((1 - gal_q) / (gal_q + 1) * sin (2 * gal_beta)) = Inr gal2 \<and>
        Moffat G psf_beta 1 psf_re = Inr psf_prof \<and>
        Convolve G [psf_prof, gal2] = Inr final"
    by (elim snr_of_run) blast
  from run3 rest obtain f3 where
    "drawImage G final image_size image_size pixel_scale = Inr f3"
    and r3: "snr r3 = true_divide (sqrt (array_sum (array_square (fill image_size image_size f3))))
               (2 * noise)"
    by (elim snr_of_run) auto
  with lib have "f3 = f" by simp
  with r r3 noise show ?thesis by (simp add: true_divide_def)
qed

section \<open>The claims\<close>

text \<open>
  C1. For an axis ratio \<open>gal_q\<close> in (0, 1] and any position angle, a call that returns
  gives the shear components \<open>g1 = A * cos (2 * gal_beta)\<close> and
  \<open>g2 = A * sin (2 * gal_beta)\<close> with \<open>A = (1 - gal_q) / (1 + gal_q)\<close>; this \<open>A\<close> lies
  in [0, 1), the squares of the components add up to the square of \<open>A\<close>, and a circular
  galaxy (\<open>gal_q = 1\<close>) has both components equal to zero. (Over the real numbers.)
\<close>

theorem shear_components:
  assumes "generate_image G psf_re bulge_re bulge_n gal_q gal_beta noise gal_flux s = (Inr r, s')"
    and "0 < gal_q" and "gal_q \<le> 1"
  shows "g1 r = (1 - gal_q) / (1 + gal_q) * cos (2 * gal_beta) \<and>
         g2 r = (1 - gal_q) / (1 + gal_q) * sin (2 * gal_beta) \<and>
         0 \<le> (1 - gal_q) / (1 + gal_q) \<and> (1 - gal_q) / (1 + gal_q) < 1 \<and>
         (g1 r)\<^sup>2 + (g2 r)\<^sup>2 = ((1 - gal_q) / (1 + gal_q))\<^sup>2 \<and>
         (gal_q = 1 \<longrightarrow> g1 r = 0 \<and> g2 r = 0)"
proof -
  let ?A = "(1 - gal_q) / (1 + gal_q)"
  from assms(1) have g: "g1 r = ?A * cos (2 * gal_beta)" "g2 r = ?A * sin (2 * gal_beta)"
    by (auto elim!: generate_image_Inr simp: add.commute)
  have range: "0 \<le> ?A" "?A < 1"
    using assms(2,3) by simp_all
  have "(g1 r)\<^sup>2 + (g2 r)\<^sup>2 = ?A\<^sup>2 * ((cos (2 * gal_beta))\<^sup>2 + (sin (2 * gal_beta))\<^sup>2)"
    unfolding g by (simp only: power_mult_distrib distrib_left)
  then have norm: "(g1 r)\<^sup>2 + (g2 r)\<^sup>2 = ?A\<^sup>2"
    by simp
  have "gal_q = 1 \<longrightarrow> g1 r = 0 \<and> g2 r = 0"
    unfolding g by simp
  with g range norm show ?thesis by blast
qed

theorem shear_components_witness:
  "(\<exists>r s'. generate_image flux_lib (3/4) (7/20) (13/4) (3/5) (pi / 2) 300 215000 start = (Inr r, s')
      \<and> g1 r = - (1/4) \<and> g2 r = 0 \<and> (g1 r)\<^sup>2 + (g2 r)\<^sup>2 = (1/4)\<^sup>2) \<and>
   (\<exists>r s'. generate_image flux_lib (3/4) (7/20) (13/4) 1 (pi / 3) 300 215000 start = (Inr r, s')
      \<and> g1 r = 0 \<and> g2 r = 0)"
proof -
  obtain s' r where run:
    "generate_image flux_lib (3/4) (7/20) (13/4) (3/5) (pi / 2) 300 215000 start = (Inr r, s')"
    using flux_lib_run [of "3/5" 300 "3/4" "7/20" "13/4" "pi / 2" 215000 start] by auto
  from shear_components [OF run]
  have elliptical: "g1 r = - (1/4) \<and> g2 r = 0 \<and> (g1 r)\<^sup>2 + (g2 r)\<^sup>2 = (1/4)\<^sup>2"
    by simp
  obtain t' u where run1:
    "generate_image flux_lib (3/4) (7/20) (13/4) 1 (pi / 3) 300 215000 start = (Inr u, t')"
    using flux_lib_run [of 1 300 "3/4" "7/20" "13/4" "pi / 3" 215000 start] by auto
  from shear_components [OF run1]
  have circular: "g1 u = 0 \<and> g2 u = 0"
    by simp
  from run elliptical run1 circular show ?thesis by blast
qed

text \<open>
  C2. The \<open>snr\<close> a call returns is the square root of the sum of the squared pixels of
  the noiseless image it returns, divided by \<open>noise\<close>: computing it again from the
  returned array gives the returned value.
\<close>

theorem snr_recomputed:
  assumes "generate_image G psf_re bulge_re bulge_n gal_q gal_beta noise gal_flux s = (Inr r, s')"
  shows "noiseless r < length (heap s') \<and>
         snr r = true_divide (sqrt (array_sum (array_square (heap s' ! noiseless r)))) noise"
  using assms by (auto elim!: generate_image_Inr simp: nth_append)

theorem snr_recomputed_witness:
  "\<exists>r s'. generate_image flux_lib (3/4) (7/20) (13/4) (3/5) (pi / 2) 300 215000 start = (Inr r, s')
      \<and> snr r = Num (1075 / 96)
      \<and> true_divide (sqrt (array_sum (array_square (heap s' ! noiseless r)))) 300 = Num (1075 / 96)"
proof -
  obtain s' r where run:
    "generate_image flux_lib (3/4) (7/20) (13/4) (3/5) (pi / 2) 300 215000 start = (Inr r, s')"
    and r: "snr r = true_divide (sqrt (array_sum (array_square
              (fill image_size image_size (\<lambda>i j. 215000 / real (image_size * image_size)))))) 300"
    using flux_lib_run [of "3/5" 300 "3/4" "7/20" "13/4" "pi / 2" 215000 start] by auto
  have "snr r = Num (1075 / 96)"
    unfolding r flux_lib_snr by (simp add: true_divide_def)
  with snr_recomputed [OF run] run show ?thesis by auto
qed

text \<open>
  C3, as amended. \<open>generate_image\<close> validates none of its parameters. Its only failure
  of its own is the \<open>ZeroDivisionError\<close> of line 40 at \<open>gal_q = - 1\<close>, raised before
  any library call and leaving the process state as it was. Every other failure is the
  exception of a library call, handed on to the caller; a failing call returns no result.
  Whenever \<open>gal_q\<close> is not \<open>- 1\<close> and no library call raises, the call returns, whatever
  the values of the parameters.
\<close>

theorem generate_image_failures:
  "(gal_q = - 1 \<longrightarrow>
      generate_image G psf_re bulge_re bulge_n gal_q gal_beta noise gal_flux s
        = (Inl ZeroDivisionError, s)) \<and>
   (\<forall>e s'. generate_image G psf_re bulge_re bulge_n gal_q gal_beta noise gal_flux s = (Inl e, s')
      \<longrightarrow> (e = ZeroDivisionError \<and> gal_q = - 1 \<and> s' = s) \<or> (\<exists>x. e = LibraryError x)) \<and>
   (\<forall>gal0 gal1 gal2 psf_prof final f pf nf f2.
      gal_q \<noteq> - 1 \<and>
      Sersic G bulge_n bulge_re = Inr gal0 \<and>
      withFlux G gal0 gal_flux = Inr gal1 \<and>
      shear G gal1 ((1 - gal_q) / (gal_q + 1) * cos (2 * gal_beta))
        ((1 - gal_q) / (gal_q + 1) * sin (2 * gal_beta)) = Inr gal2 \<and>
      Moffat G psf_beta 1 psf_re = Inr psf_prof \<and>
      Convolve G [psf_prof, gal2] = Inr final \<and>
      drawImage G final image_size image_size pixel_scale = Inr f \<and>
      PoissonNoise G (fst (BaseDeviate_entropy G (urandom s))) 0
        (fill image_size image_size f) = Inr pf \<and>
      fst (random_normal G 0 noise (64 * 64) (np_random s)) = Inr nf \<and>
      drawImage G psf_prof image_size image_size pixel_scale = Inr f2
      \<longrightarrow> (\<exists>r s'. generate_image G psf_re bulge_re bulge_n gal_q gal_beta noise gal_flux s
                    = (Inr r, s')))"
proof (intro conjI allI impI)
  assume "gal_q = - 1"
  then show "generate_image G psf_re bulge_re bulge_n gal_q gal_beta noise gal_flux s
      = (Inl ZeroDivisionError, s)"
    by (rule generate_image_div_zero)
next
  fix e s'
  assume "generate_image G psf_re bulge_re bulge_n gal_q gal_beta noise gal_flux s = (Inl e, s')"
  then show "(e = ZeroDivisionError \<and> gal_q = - 1 \<and> s' = s) \<or> (\<exists>x. e = LibraryError x)"
    by (rule generate_image_Inl)
next
  fix gal0 gal1 gal2 psf_prof final f pf nf f2
  assume a: "gal_q \<noteq> - 1 \<and>
      Sersic G bulge_n bulge_re = Inr gal0 \<and>
      withFlux G gal0 gal_flux = Inr gal1 \<and>
      shear G gal1 ((1 - gal_q) / (gal_q + 1) * cos (2 * gal_beta))
        ((1 - gal_q) / (gal_q + 1) * sin (2 * gal_beta)) = Inr gal2 \<and>
      Moffat G psf_beta 1 psf_re = Inr psf_prof \<and>
      Convolve G [psf_prof, gal2] = Inr final \<and>
      drawImage G final image_size image_size pixel_scale = Inr f \<and>
      PoissonNoise G (fst (BaseDeviate_entropy G (urandom s))) 0
        (fill image_size image_size f) = Inr pf \<and>
      fst (random_normal G 0 noise (64 * 64) (np_random s)) = Inr nf \<and>
      drawImage G psf_prof image_size image_size pixel_scale = Inr f2"
  then have q: "gal_q + 1 \<noteq> 0" by auto
  from a show "\<exists>r s'. generate_image G psf_re bulge_re bulge_n gal_q gal_beta noise gal_flux s
      = (Inr r, s')"
    by (elim conjE) (rule generate_image_succeeds [OF q]; assumption)
qed

theorem generate_image_failures_witness:
  "generate_image flux_lib (3/4) (7/20) (13/4) (- 1) (pi / 2) 300 215000 start
     = (Inl ZeroDivisionError, start) \<and>
   fst (generate_image flux_lib (3/4) (7/20) (13/4) (3/5) (pi / 2) (- 1) 215000 start)
     = Inl (LibraryError ''ValueError'') \<and>
   (\<exists>r s'. generate_image flux_lib (3/4) (7/20) (13/4) (3/5) (pi / 2) 0 (- 1) start = (Inr r, s'))"
proof -
  note inst = generate_image_failures [where G = flux_lib and psf_re = "3/4" and bulge_re = "7/20"
      and bulge_n = "13/4" and gal_beta = "pi / 2" and s = start]
  have 1: "generate_image flux_lib (3/4) (7/20) (13/4) (- 1) (pi / 2) 300 215000 start
     = (Inl ZeroDivisionError, start)"
    using inst [of "- 1" 300 215000] by simp
  have 2: "fst (generate_image flux_lib (3/4) (7/20) (13/4) (3/5) (pi / 2) (- 1) 215000 start)
     = Inl (LibraryError ''ValueError'')"
    by (rule flux_lib_negative_noise) simp_all
  have 3: "\<exists>r s'. generate_image flux_lib (3/4) (7/20) (13/4) (3/5) (pi / 2) 0 (- 1) start = (Inr r, s')"
    using inst [of "3/5" 0 "- 1"] by (simp add: flux_lib_def)
  from 1 2 3 show ?thesis by blast
qed

text \<open>
  The claim as written fails: at \<open>gal_q = - 1\<close> the exception is a
  \<open>ZeroDivisionError\<close>, and at \<open>noise = 0\<close> a library that accepts its arguments gets a
  result back, with an infinite signal-to-noise ratio.
\<close>

theorem generate_image_unvalidated_counterexample:
  "generate_image flux_lib (3/4) (7/20) (13/4) (- 1) (pi / 2) 300 215000 start
     = (Inl ZeroDivisionError, start) \<and>
   fst (generate_image flux_lib (3/4) (7/20) (13/4) (3/5) (pi / 2) 0 215000 start)
     = Inr \<lparr>noised = 2, psf = 3, noiseless = 1, snr = PosInf, g1 = - (1/4), g2 = 0\<rparr>"
proof -
  have 1: "generate_image flux_lib (3/4) (7/20) (13/4) (- 1) (pi / 2) 300 215000 start
     = (Inl ZeroDivisionError, start)"
    by (rule generate_image_div_zero) simp
  have len: "length (heap start) = 0"
    by (simp add: start_def module_init_def)
  have "true_divide (sqrt (array_sum (array_square
          (fill image_size image_size (\<lambda>i j. 215000 / real (image_size * image_size)))))) 0 = PosInf"
    unfolding flux_lib_snr by (simp add: true_divide_def)
  with flux_lib_run [of "3/5" 0 "3/4" "7/20" "13/4" "pi / 2" 215000 start] len
  have 2: "fst (generate_image flux_lib (3/4) (7/20) (13/4) (3/5) (pi / 2) 0 215000 start)
     = Inr \<lparr>noised = 2, psf = 3, noiseless = 1, snr = PosInf, g1 = - (1/4), g2 = 0\<rparr>"
    by auto
  from 1 2 show ?thesis by blast
qed

text \<open>
  C6. The photon-noise step does not use the seeded generator: its result and its effect
  are the same whatever \<open>rng\<close> holds, and the deviate it gives to the Poisson noise is
  the one GalSim seeds from the operating system's entropy.
\<close>

theorem photon_noise_not_seeded:
  "addNoise_Poisson G img sky (s\<lparr>rng := d\<rparr>)
     = (fst (addNoise_Poisson G img sky s), (snd (addNoise_Poisson G img sky s))\<lparr>rng := d\<rparr>) \<and>
   addNoise_Poisson G img sky s =
     (case PoissonNoise G (fst (BaseDeviate_entropy G (urandom s))) sky (heap s ! array_ref img) of
        Inl e \<Rightarrow> (Inl (LibraryError e), s\<lparr>urandom := snd (BaseDeviate_entropy G (urandom s))\<rparr>)
      | Inr f \<Rightarrow> (Inr (), s\<lparr>urandom := snd (BaseDeviate_entropy G (urandom s)),
                          heap := (heap s)[array_ref img := fill (nrow img) (ncol img) f]\<rparr>))"
proof -
  have "ignores_rng (addNoise_Poisson G img sky)"
    by (rule ignores_rng_addNoise_Poisson)
  then have "addNoise_Poisson G img sky (s\<lparr>rng := d\<rparr>)
     = (fst (addNoise_Poisson G img sky s), (snd (addNoise_Poisson G img sky s))\<lparr>rng := d\<rparr>)"
    unfolding ignores_rng_def by blast
  moreover have "addNoise_Poisson G img sky s =
     (case PoissonNoise G (fst (BaseDeviate_entropy G (urandom s))) sky (heap s ! array_ref img) of
        Inl e \<Rightarrow> (Inl (LibraryError e), s\<lparr>urandom := snd (BaseDeviate_entropy G (urandom s))\<rparr>)
      | Inr f \<Rightarrow> (Inr (), s\<lparr>urandom := snd (BaseDeviate_entropy G (urandom s)),
                          heap := (heap s)[array_ref img := fill (nrow img) (ncol img) f]\<rparr>))"
    by (simp add: addNoise_Poisson_def and_then_def fresh_deviate_def read_array_def lib_call_def
          write_array_def split: prod.splits sum.splits)
  ultimately show ?thesis by blast
qed

text \<open>
  C7. Two calls with the same seven parameters return the same noiseless image and the
  same PSF image, whatever the states of the heap and of the random generators they
  start from.
\<close>

theorem deterministic_images:
  assumes "generate_image G psf_re bulge_re bulge_n gal_q gal_beta noise gal_flux s1 = (Inr r1, s1')"
    and "generate_image G psf_re bulge_re bulge_n gal_q gal_beta noise gal_flux s2 = (Inr r2, s2')"
  shows "heap s1' ! noiseless r1 = heap s2' ! noiseless r2 \<and>
         heap s1' ! psf r1 = heap s2' ! psf r2"
  using assms
  by (elim generate_image_Inr) (simp add: nth_append)

theorem deterministic_images_witness:
  "\<exists>r1 s1' r2 s2'.
      generate_image flux_lib (3/4) (7/20) (13/4) (3/5) (pi / 2) 300 215000 start = (Inr r1, s1') \<and>
      generate_image flux_lib (3/4) (7/20) (13/4) (3/5) (pi / 2) 300 215000 busy = (Inr r2, s2') \<and>
      rng start \<noteq> rng busy \<and> urandom start \<noteq> urandom busy \<and> np_random start \<noteq> np_random busy \<and>
      heap s1' ! noiseless r1 = heap s2' ! noiseless r2 \<and> heap s1' ! psf r1 = heap s2' ! psf r2"
proof -
  obtain s1' r1 where run1:
    "generate_image flux_lib (3/4) (7/20) (13/4) (3/5) (pi / 2) 300 215000 start = (Inr r1, s1')"
    using flux_lib_run [of "3/5" 300 "3/4" "7/20" "13/4" "pi / 2" 215000 start] by auto
  obtain s2' r2 where run2:
    "generate_image flux_lib (3/4) (7/20) (13/4) (3/5) (pi / 2) 300 215000 busy = (Inr r2, s2')"
    using flux_lib_run [of "3/5" 300 "3/4" "7/20" "13/4" "pi / 2" 215000 busy] by auto
  have "rng start \<noteq> rng busy \<and> urandom start \<noteq> urandom busy \<and> np_random start \<noteq> np_random busy"
    by (simp add: start_def busy_def module_init_def flux_lib_def random_seed_def)
  with deterministic_images [OF run1 run2] run1 run2 show ?thesis by blast
qed

text \<open>
  C8. The noiseless array a call returns holds the rendering of the convolved profile.
  It is not the image's buffer, which by the end holds the photon-noised pixels: the
  in-place noise does not reach the copy.
\<close>

theorem noiseless_is_copy:
  assumes "generate_image G psf_re bulge_re bulge_n gal_q gal_beta noise gal_flux s = (Inr r, s')"
  shows "\<exists>gal0 gal1 gal2 psf_prof final f pf.
           Sersic G bulge_n bulge_re = Inr gal0 \<and>
           withFlux G gal0 gal_flux = Inr gal1 \<and>
           shear G gal1 (g1 r) (g2 r) = Inr gal2 \<and>
           Moffat G psf_beta 1 psf_re = Inr psf_prof \<and>
           Convolve G [psf_prof, gal2] = Inr final \<and>
           drawImage G final image_size image_size pixel_scale = Inr f \<and>
           PoissonNoise G (fst (BaseDeviate_entropy G (urandom s))) 0
             (fill image_size image_size f) = Inr pf \<and>
           noiseless r < length (heap s') \<and>
           noiseless r \<noteq> length (heap s) \<and>
           heap s' ! noiseless r = fill image_size image_size f \<and>
           heap s' ! length (heap s) = fill image_size image_size pf"
  using assms
  by (elim generate_image_Inr) (simp add: nth_append)

theorem noiseless_is_copy_witness:
  "\<exists>r s'. generate_image flux_lib (3/4) (7/20) (13/4) (3/5) (pi / 2) 300 215000 busy = (Inr r, s')
      \<and> noiseless r = 2
      \<and> heap s' ! noiseless r = fill image_size image_size (\<lambda>i j. 215000 / real (image_size * image_size))
      \<and> heap s' ! 1 = fill image_size image_size
           (\<lambda>i j. fill image_size image_size (\<lambda>i j. 215000 / real (image_size * image_size)) ! i ! j + 5)"
proof -
  obtain s' r where run:
    "generate_image flux_lib (3/4) (7/20) (13/4) (3/5) (pi / 2) 300 215000 busy = (Inr r, s')"
    and r: "noiseless r = 2"
    using flux_lib_run [of "3/5" 300 "3/4" "7/20" "13/4" "pi / 2" 215000 busy]
    by (auto simp: busy_def)
  from noiseless_is_copy [OF run] r
  have "heap s' ! noiseless r = fill image_size image_size (\<lambda>i j. 215000 / real (image_size * image_size))
      \<and> heap s' ! 1 = fill image_size image_size
           (\<lambda>i j. fill image_size image_size (\<lambda>i j. 215000 / real (image_size * image_size)) ! i ! j + 5)"
    by (auto simp: flux_lib_def busy_def)
  with run r show ?thesis by blast
qed

text \<open>
  C10. The module's seeded generator \<open>rng\<close> is neither read nor advanced by
  \<open>generate_image\<close>: it is the same after every call, failing calls included, the
  result and the rest of the final state do not depend on it, and after a call from the
  initial state it is still the generator built from \<open>random_seed + 1\<close>.
\<close>

theorem seeded_rng_untouched:
  "rng (snd (generate_image G psf_re bulge_re bulge_n gal_q gal_beta noise gal_flux s)) = rng s \<and>
   generate_image G psf_re bulge_re bulge_n gal_q gal_beta noise gal_flux (s\<lparr>rng := d\<rparr>)
     = (fst (generate_image G psf_re bulge_re bulge_n gal_q gal_beta noise gal_flux s),
        (snd (generate_image G psf_re bulge_re bulge_n gal_q gal_beta noise gal_flux s))\<lparr>rng := d\<rparr>) \<and>
   rng (snd (generate_image G psf_re bulge_re bulge_n gal_q gal_beta noise gal_flux (module_init G w n)))
     = BaseDeviate G (random_seed + 1)"
proof -
  have frame: "ignores_rng (generate_image G psf_re bulge_re bulge_n gal_q gal_beta noise gal_flux)"
    by (rule ignores_rng_generate_image)
  have "rng (snd (generate_image G psf_re bulge_re bulge_n gal_q gal_beta noise gal_flux
          (module_init G w n))) = rng (module_init G w n)"
    by (rule ignores_rng_same [OF frame])
  then have init: "rng (snd (generate_image G psf_re bulge_re bulge_n gal_q gal_beta noise gal_flux
          (module_init G w n))) = BaseDeviate G (random_seed + 1)"
    by (simp add: module_init_def)
  from frame have "generate_image G psf_re bulge_re bulge_n gal_q gal_beta noise gal_flux (s\<lparr>rng := d\<rparr>)
     = (fst (generate_image G psf_re bulge_re bulge_n gal_q gal_beta noise gal_flux s),
        (snd (generate_image G psf_re bulge_re bulge_n gal_q gal_beta noise gal_flux s))\<lparr>rng := d\<rparr>)"
    unfolding ignores_rng_def by blast
  with ignores_rng_same [OF frame, of s] init show ?thesis by blast
qed

end
